theory Spec2Isabelle
  imports Complex_Main
begin

section \<open>The PID regulator (class PID of scripts/tracking\_pid\_node.py)\<close>

text \<open>
  Python floats are modelled as real numbers, a time stamp as its \<open>to_sec()\<close> value.
  The clock reading \<open>rospy.Time.now()\<close> is an argument of every operation that reads
  the clock. Logging (\<open>rospy.loginfo\<close>, \<open>rospy.logerr\<close>) is left out, and with it the
  \<open>verbose\<close> argument of \<open>update\<close>, which only selects whether a message is logged.
\<close>

text \<open>
  \<open>np.clip(a, a_min, a_max)\<close> is \<open>minimum(a_max, maximum(a, a_min))\<close>: where
  \<open>a_min > a_max\<close> the result is \<open>a_max\<close>.
\<close>

definition clip :: "real \<Rightarrow> real \<Rightarrow> real \<Rightarrow> real" where
  "clip a a_min a_max = min a_max (max a a_min)"

record PID =
  kp :: real
  kd :: real
  ki :: real
  min_output :: real
  max_output :: real
  delta :: real
  min_integral :: real
  max_integral :: real
  name :: string
  integral :: real
  previous_output :: real
  previous_error :: "real option"
  previous_time :: real

text \<open>\<open>PID.reset\<close>; \<open>now\<close> is the clock reading.\<close>

definition reset :: "PID \<Rightarrow> real \<Rightarrow> PID" where
  "reset p now = p\<lparr>integral := 0, previous_output := 0,
                   previous_error := None, previous_time := now\<rparr>"

text \<open>\<open>PID.__init__\<close>: stores the nine arguments, then resets.\<close>

definition PID_init ::
  "real \<Rightarrow> real \<Rightarrow> real \<Rightarrow> real \<Rightarrow> real \<Rightarrow> real \<Rightarrow> real \<Rightarrow> real \<Rightarrow> string \<Rightarrow> real \<Rightarrow> PID" where
  "PID_init kp0 kd0 ki0 min_output0 max_output0 delta0 min_integral0 max_integral0 name0 now =
     reset \<lparr>kp = kp0, kd = kd0, ki = ki0, min_output = min_output0, max_output = max_output0,
            delta = delta0, min_integral = min_integral0, max_integral = max_integral0,
            name = name0, integral = 0, previous_output = 0, previous_error = None,
            previous_time = now\<rparr> now"

text \<open>
  The terms of \<open>PID.update\<close>, in the order of the source: \<open>dt\<close>, the proportional term,
  the derivative term (lines 227 to 231: it stays \<open>0.0\<close> unless \<open>dt > 0\<close>, and an unset
  previous error is first set to the current error), the stored integral (lines 232 to
  237: both bounds handed to \<open>np.clip\<close> are \<open>self.max_integral\<close>), the integral term,
  and the output after the two clips of lines 239 to 248.
\<close>

definition update_dt :: "PID \<Rightarrow> real \<Rightarrow> real" where
  "update_dt p now = now - previous_time p"

definition update_proportional :: "PID \<Rightarrow> real \<Rightarrow> real" where
  "update_proportional p error = kp p * error"

definition update_derivative :: "PID \<Rightarrow> real \<Rightarrow> real \<Rightarrow> real" where
  "update_derivative p error now =
     (let dt = update_dt p now in
      if dt > 0 then
        (let prev = (case previous_error p of None \<Rightarrow> error | Some e \<Rightarrow> e)
         in kd p * (error - prev) / dt)
      else 0)"

definition update_integral :: "PID \<Rightarrow> real \<Rightarrow> real \<Rightarrow> real" where
  "update_integral p error now =
     clip (integral p + error * update_dt p now) (max_integral p) (max_integral p)"

definition update_output :: "PID \<Rightarrow> real \<Rightarrow> real \<Rightarrow> real" where
  "update_output p error now =
     (let proportional = update_proportional p error;
          derivative = update_derivative p error now;
          integral_term = ki p * update_integral p error now;
          output = clip (proportional + integral_term + derivative) (min_output p) (max_output p)
      in clip output (previous_output p - delta p) (previous_output p + delta p))"

text \<open>\<open>PID.update\<close>: the returned output and the regulator after the call.\<close>

definition update :: "PID \<Rightarrow> real \<Rightarrow> real \<Rightarrow> real \<times> PID" where
  "update p error now =
     (let output = update_output p error now
      in (output, p\<lparr>integral := update_integral p error now,
                     previous_error := Some error,
                     previous_time := now,
                     previous_output := output\<rparr>))"



section \<open>The controller (class TrackingPIDWQueue)\<close>

text \<open>
  \<open>np.arctan2(x1, x2)\<close> on reals: the angle in \<open>(-pi, pi]\<close> of the point with
  abscissa \<open>x2\<close> and ordinate \<open>x1\<close>, and \<open>0\<close> at the origin. The reals have one
  zero, so the signed zeros of floats are not distinguished.
\<close>

definition arctan2 :: "real \<Rightarrow> real \<Rightarrow> real" where
  "arctan2 x1 x2 =
     (if x2 > 0 then arctan (x1 / x2)
      else if x2 < 0 then (if x1 \<ge> 0 then arctan (x1 / x2) + pi else arctan (x1 / x2) - pi)
      else if x1 > 0 then pi / 2
      else if x1 < 0 then - (pi / 2)
      else 0)"

text \<open>\<open>np.hypot\<close>.\<close>

definition hypot :: "real \<Rightarrow> real \<Rightarrow> real" where
  "hypot a b = sqrt (a\<^sup>2 + b\<^sup>2)"

text \<open>
  The messages. Of a \<open>Twist\<close> only \<open>linear.x\<close> and \<open>angular.z\<close> are ever written; of an
  \<open>Odometry\<close> message the callback reads the position, the twist and the orientation,
  the latter only through \<open>euler_from_quaternion(quaternion)[2]\<close> of the tf library,
  whose value is the field \<open>pose_orientation_yaw\<close> here. The element type of
  \<open>states.states\<close> (package message \<open>tracking_pid.msg\<close>) and the generated
  \<open>ParamsConfig\<close> are known by the fields the callbacks read.
\<close>

record Twist =
  linear_x :: real
  angular_z :: real

record Odometry =
  pose_position_x :: real
  pose_position_y :: real
  pose_orientation_yaw :: real
  twist_linear_x :: real
  twist_angular_z :: real

record state_msg =
  state_x :: real
  state_y :: real
  state_yaw :: real
  state_ux :: real
  state_utheta :: real

record ParamsConfig =
  cfg_angular_tolerance :: real
  cfg_rotate_lin_vel :: real
  cfg_angular_kp :: real
  cfg_angular_ki :: real
  cfg_angular_kd :: real
  cfg_angular_min_integral :: real
  cfg_angular_max_integral :: real
  cfg_angular_min_output :: real
  cfg_angular_max_output :: real
  cfg_linear_kp :: real
  cfg_linear_ki :: real
  cfg_linear_kd :: real
  cfg_linear_min_integral :: real
  cfg_linear_max_integral :: real
  cfg_linear_min_output :: real
  cfg_linear_max_output :: real

datatype error = IndexError | AttributeError

text \<open>
  The object. The two numpy arrays of length 5 are functions from the index; every index
  in the source is a literal from 0 to 4. \<open>self.i\<close> and \<open>self.states\<close> do not exist before
  the first \<open>states_callback\<close>: they are \<open>None\<close> until then, and reading them raises
  \<open>AttributeError\<close>. \<open>need_waypoint\<close> is \<open>self.need_waypoint.data\<close>. \<open>published\<close> is
  the sequence of messages handed to \<open>pub_cmd_vel.publish\<close>, oldest first.
\<close>

record TrackingPIDWQueue =
  prev_linear_vel :: real
  prev_angular_vel :: real
  twist :: Twist
  need_waypoint :: bool
  odom :: "nat \<Rightarrow> real"
  waypoint :: "nat \<Rightarrow> real"
  rotate_lin_vel :: real
  verbose :: bool
  angular_tolerance :: real
  robot_radius :: real
  pid_angular :: PID
  pid_linear :: PID
  self_i :: "int option"
  states :: "state_msg list option"
  published :: "Twist list"

text \<open>
  \<open>__init__\<close>, up to the subscriptions. \<open>empty5\<close> is the content of \<open>np.empty(5)\<close>,
  which numpy leaves arbitrary; \<open>now_angular\<close> and \<open>now_linear\<close> are the clock readings
  of the two \<open>PID\<close> constructors. Configurations that the \<open>Server\<close> delivers, the first
  of them while it is constructed, are calls of \<open>param_callback\<close>.
\<close>

definition init :: "(nat \<Rightarrow> real) \<Rightarrow> real \<Rightarrow> real \<Rightarrow> TrackingPIDWQueue" where
  "init empty5 now_angular now_linear =
     \<lparr>prev_linear_vel = 0,
      prev_angular_vel = 0,
      twist = \<lparr>linear_x = 0, angular_z = 0\<rparr>,
      need_waypoint = True,
      odom = empty5,
      waypoint = empty5,
      rotate_lin_vel = 0.2,
      verbose = True,
      angular_tolerance = 0.2,
      robot_radius = 0.2,
      pid_angular = PID_init 1.0 0.0 0.0 (-1.0) 1.0 0.01 0.0 0.0 ''Angular'' now_angular,
      pid_linear = PID_init 1.0 0.0 0.0 (-0.5) 0.5 0.05 0.0 0.0 ''Linear'' now_linear,
      self_i = None,
      states = None,
      published = []\<rparr>"

definition param_callback :: "TrackingPIDWQueue \<Rightarrow> ParamsConfig \<Rightarrow> TrackingPIDWQueue" where
  "param_callback s config =
     s\<lparr>angular_tolerance := cfg_angular_tolerance config,
       robot_radius := 0.2,
       rotate_lin_vel := cfg_rotate_lin_vel config,
       verbose := False,
       pid_angular := (pid_angular s)
         \<lparr>kp := cfg_angular_kp config,
          ki := cfg_angular_ki config,
          kd := cfg_angular_kd config,
          min_integral := cfg_angular_min_integral config,
          max_integral := cfg_angular_max_integral config,
          min_output := cfg_angular_min_output config,
          max_output := cfg_angular_max_output config,
          delta := 0.01\<rparr>,
       pid_linear := (pid_linear s)
         \<lparr>kp := cfg_linear_kp config,
          ki := cfg_linear_ki config,
          kd := cfg_linear_kd config,
          min_integral := cfg_linear_min_integral config,
          max_integral := cfg_linear_max_integral config,
          min_output := cfg_linear_min_output config,
          max_output := cfg_linear_max_output config,
          delta := 0.05\<rparr>\<rparr>"

text \<open>\<open>self.pub_cmd_vel.publish(self.twist)\<close>.\<close>

definition publish :: "TrackingPIDWQueue \<Rightarrow> TrackingPIDWQueue" where
  "publish s = s\<lparr>published := published s @ [twist s]\<rparr>"

definition stop :: "TrackingPIDWQueue \<Rightarrow> TrackingPIDWQueue" where
  "stop s = publish (s\<lparr>twist := (twist s)\<lparr>linear_x := 0, angular_z := 0\<rparr>\<rparr>)"

text \<open>The five assignments \<open>self.waypoint[k] = state. ...\<close>.\<close>

definition set_waypoint :: "(nat \<Rightarrow> real) \<Rightarrow> state_msg \<Rightarrow> (nat \<Rightarrow> real)" where
  "set_waypoint w st =
     w(0 := state_x st, 1 := state_y st, 2 := state_yaw st, 3 := state_ux st,
       4 := state_utheta st)"

text \<open>
  A method that can raise returns the exception or \<open>()\<close>, and the object as the
  assignments before the raise left it.
\<close>

definition states_callback ::
  "TrackingPIDWQueue \<Rightarrow> state_msg list \<Rightarrow> (error + unit) \<times> TrackingPIDWQueue" where
  "states_callback s msg_states =
     (let s1 = s\<lparr>self_i := Some 0, states := Some msg_states\<rparr>
      in case msg_states of
           [] \<Rightarrow> (Inl IndexError, s1)
         | st # rest \<Rightarrow>
             (Inr (), s1\<lparr>states := Some rest,
                          waypoint := set_waypoint (waypoint s1) st,
                          need_waypoint := False\<rparr>))"

definition get_new_waypoint :: "TrackingPIDWQueue \<Rightarrow> (error + unit) \<times> TrackingPIDWQueue" where
  "get_new_waypoint s =
     (case self_i s of
        None \<Rightarrow> (Inl AttributeError, s)
      | Some n \<Rightarrow>
          (let s1 = s\<lparr>self_i := Some (n + 1)\<rparr>
           in case states s1 of
                None \<Rightarrow> (Inl AttributeError, s1)
              | Some [] \<Rightarrow> (Inl IndexError, s1)
              | Some (st # rest) \<Rightarrow>
                  (Inr (), s1\<lparr>states := Some rest,
                               waypoint := set_waypoint (waypoint s1) st,
                               need_waypoint := False\<rparr>)))"

text \<open>The errors of \<open>control\<close> (lines 152 to 162) and the distance to the waypoint.\<close>

definition x_diff :: "TrackingPIDWQueue \<Rightarrow> real" where
  "x_diff s = waypoint s 0 - odom s 0"

definition y_diff :: "TrackingPIDWQueue \<Rightarrow> real" where
  "y_diff s = waypoint s 1 - odom s 1"

definition dist :: "TrackingPIDWQueue \<Rightarrow> real" where
  "dist s = hypot (y_diff s) (x_diff s)"

definition x_relative :: "TrackingPIDWQueue \<Rightarrow> real" where
  "x_relative s = cos (odom s 2) * x_diff s + sin (odom s 2) * y_diff s"

definition y_relative :: "TrackingPIDWQueue \<Rightarrow> real" where
  "y_relative s = - sin (odom s 2) * x_diff s + cos (odom s 2) * y_diff s"

definition angular_error :: "TrackingPIDWQueue \<Rightarrow> real" where
  "angular_error s = arctan2 (y_relative s) (x_relative s)"

definition linear_error :: "TrackingPIDWQueue \<Rightarrow> real" where
  "linear_error s = tanh (x_relative s)"

text \<open>
  \<open>control\<close>, in two parts; \<open>now_angular\<close> and \<open>now_linear\<close> are the clock readings
  of the two \<open>update\<close> calls. \<open>control_command\<close> is lines 169 to 184: the two
  regulators, the copies \<open>prev_angular_vel\<close> and \<open>prev_linear_vel\<close>, and the
  rotate-in-place override of \<open>twist.linear.x\<close>. \<open>control\<close> goes on with lines 185 to
  189: the arrival test, \<open>get_new_waypoint\<close>, and the publication, which an exception
  of \<open>get_new_waypoint\<close> skips. The errors and the distance are computed once, from
  the object as it is on entry.
\<close>

definition control_command :: "TrackingPIDWQueue \<Rightarrow> real \<Rightarrow> real \<Rightarrow> TrackingPIDWQueue" where
  "control_command s now_angular now_linear =
     (let (out_angular, pa) = update (pid_angular s) (angular_error s) now_angular;
          s1 = s\<lparr>pid_angular := pa, twist := (twist s)\<lparr>angular_z := out_angular\<rparr>\<rparr>;
          (out_linear, pl) = update (pid_linear s1) (linear_error s) now_linear;
          s2 = s1\<lparr>pid_linear := pl, twist := (twist s1)\<lparr>linear_x := out_linear\<rparr>\<rparr>;
          s3 = s2\<lparr>prev_angular_vel := angular_z (twist s2)\<rparr>;
          s4 = s3\<lparr>prev_linear_vel := linear_x (twist s3)\<rparr>
      in if \<bar>angular_error s\<bar> > angular_tolerance s4
         then s4\<lparr>twist := (twist s4)\<lparr>linear_x := rotate_lin_vel s4\<rparr>\<rparr>
         else s4)"

definition control ::
  "TrackingPIDWQueue \<Rightarrow> real \<Rightarrow> real \<Rightarrow> (error + unit) \<times> TrackingPIDWQueue" where
  "control s now_angular now_linear =
     (let s5 = control_command s now_angular now_linear
      in if dist s < robot_radius s5 then
           (case get_new_waypoint (s5\<lparr>need_waypoint := True\<rparr>) of
              (Inl e, s6) \<Rightarrow> (Inl e, s6)
            | (Inr u, s6) \<Rightarrow> (Inr (), publish s6))
         else (Inr (), publish s5))"

text \<open>The five assignments \<open>self.odom[k] = ...\<close> that open \<open>odom_callback\<close>.\<close>

definition set_odom :: "TrackingPIDWQueue \<Rightarrow> Odometry \<Rightarrow> TrackingPIDWQueue" where
  "set_odom s msg = s\<lparr>odom := (odom s)(0 := pose_position_x msg,
                                   1 := pose_position_y msg,
                                   2 := pose_orientation_yaw msg,
                                   3 := twist_linear_x msg,
                                   4 := twist_angular_z msg)\<rparr>"

definition odom_callback ::
  "TrackingPIDWQueue \<Rightarrow> Odometry \<Rightarrow> real \<Rightarrow> real \<Rightarrow> (error + unit) \<times> TrackingPIDWQueue" where
  "odom_callback s msg now_angular now_linear =
     (let s1 = set_odom s msg
      in if need_waypoint s1 then (Inr (), s1)
         else control s1 now_angular now_linear)"

text \<open>
  The events that reach the object, one callback each, and a run over a sequence of
  events. An exception leaves a callback with the object as it then is; the next event
  is delivered to that object.
\<close>

datatype event =
  Odom Odometry real real
| States "state_msg list"
| Params ParamsConfig

fun step :: "TrackingPIDWQueue \<Rightarrow> event \<Rightarrow> (error + unit) \<times> TrackingPIDWQueue" where
  "step s (Odom msg now_angular now_linear) = odom_callback s msg now_angular now_linear"
| "step s (States msg_states) = states_callback s msg_states"
| "step s (Params config) = (Inr (), param_callback s config)"

fun run :: "TrackingPIDWQueue \<Rightarrow> event list \<Rightarrow> TrackingPIDWQueue" where
  "run s [] = s"
| "run s (ev # evs) = run (snd (step s ev)) evs"

fun is_States :: "event \<Rightarrow> bool" where
  "is_States (States msg_states) = True"
| "is_States ev = False"

section \<open>Inputs of the worked examples\<close>

text \<open>
  \<open>tracking_start wps\<close> is the object constructed at time 0, with zeros in
  \<open>np.empty(5)\<close>, after \<open>states_callback\<close> has received the list \<open>wps\<close>.
\<close>

definition tracking_start :: "state_msg list \<Rightarrow> TrackingPIDWQueue" where
  "tracking_start wps = snd (states_callback (init (\<lambda>k. 0) 0 0) wps)"

definition wp_near :: state_msg where
  "wp_near = \<lparr>state_x = 0.1, state_y = 0, state_yaw = 0, state_ux = 0, state_utheta = 0\<rparr>"

definition wp_behind :: state_msg where
  "wp_behind = \<lparr>state_x = -1, state_y = 0, state_yaw = 0, state_ux = 0, state_utheta = 0\<rparr>"

definition wp_left :: state_msg where
  "wp_left = \<lparr>state_x = 0, state_y = 5, state_yaw = 0, state_ux = 0, state_utheta = 0\<rparr>"

definition pose_origin :: Odometry where
  "pose_origin = \<lparr>pose_position_x = 0, pose_position_y = 0, pose_orientation_yaw = 0,
     twist_linear_x = 0, twist_angular_z = 0\<rparr>"

definition pose_turned :: Odometry where
  "pose_turned = \<lparr>pose_position_x = 0, pose_position_y = 0, pose_orientation_yaw = pi / 2,
     twist_linear_x = 0, twist_angular_z = 0\<rparr>"

text \<open>The object after one pose update at the origin, heading along the x axis, while
  tracking \<open>wp_left\<close>.\<close>

definition after_first :: TrackingPIDWQueue where
  "after_first = snd (step (tracking_start [wp_left]) (Odom pose_origin 1 1))"

text \<open>A configuration whose linear output limits are inverted.\<close>

definition cfg_inverted :: ParamsConfig where
  "cfg_inverted = \<lparr>cfg_angular_tolerance = 0.2, cfg_rotate_lin_vel = 0.2,
     cfg_angular_kp = 1, cfg_angular_ki = 0, cfg_angular_kd = 0,
     cfg_angular_min_integral = 0, cfg_angular_max_integral = 0,
     cfg_angular_min_output = -1, cfg_angular_max_output = 1,
     cfg_linear_kp = 1, cfg_linear_ki = 0, cfg_linear_kd = 0,
     cfg_linear_min_integral = 0, cfg_linear_max_integral = 0,
     cfg_linear_min_output = 0.5, cfg_linear_max_output = -0.5\<rparr>"

text \<open>
  Regulators: one whose previous update was at time 5, with all three gains 1 and the
  integral limits \<open>-1\<close> and \<open>1\<close>; one whose
  output range lies above 0; the linear regulator of the controller with a previous
  output of 0.1.
\<close>

definition pid_late :: PID where
  "pid_late = PID_init 1 1 1 (-1) 1 0.05 (-1) 1 ''Linear'' 5"



section \<open>Properties of the regulator\<close>

lemma update_integral_eq: "update_integral p e now = max_integral p"
  by (simp add: update_integral_def clip_def)

lemma update_fst: "fst (update p e now) = update_output p e now"
  by (simp add: update_def Let_def)

lemma update_snd_previous_output:
  "previous_output (snd (update p e now)) = update_output p e now"
  by (simp add: update_def Let_def)

lemma update_snd_delta: "delta (snd (update p e now)) = delta p"
  by (simp add: update_def Let_def)

lemma update_output_slew:
  "0 \<le> delta p \<Longrightarrow> \<bar>update_output p e now - previous_output p\<bar> \<le> delta p"
  by (simp add: update_output_def Let_def clip_def)

text \<open>
  Claim C2. The claim: after \<open>update\<close> the stored integral is the previous integral plus
  \<open>error * dt\<close>, clamped to \<open>[min_integral, max_integral]\<close>. The code hands
  \<open>max_integral\<close> to \<open>np.clip\<close> as both bounds. For a fresh regulator with
  \<open>min_integral = -1\<close> and \<open>max_integral = 1\<close>, constructed at time 0 and updated at
  time 1 with error 0.5, the code stores 1, where the clamp of the claim gives 0.5.
\<close>

theorem C2_update_integral_failing_input:
  "integral (snd (update (PID_init 1 0 1 (-1) 1 0.05 (-1) 1 ''Linear'' 0) 0.5 1)) = 1
   \<and> clip (integral (PID_init 1 0 1 (-1) 1 0.05 (-1) 1 ''Linear'' 0) + 0.5 * (1 - 0))
        (min_integral (PID_init 1 0 1 (-1) 1 0.05 (-1) 1 ''Linear'' 0))
        (max_integral (PID_init 1 0 1 (-1) 1 0.05 (-1) 1 ''Linear'' 0)) = 0.5"
  by (simp add: update_def update_integral_def update_dt_def PID_init_def reset_def clip_def
      Let_def)



text \<open>
  What a call with a \<open>dt\<close> that is not positive does: the derivative term is 0, the
  output is the proportional term plus the integral term, clipped to the output range
  and then to the slew range, \<open>previous_time\<close> becomes \<open>now\<close>, and the next call at a
  later time has the usual derivative term. The stored integral is the one of lines 232
  to 237.
\<close>

lemma update_nonpositive_dt:
  assumes "update_dt p now \<le> 0"
  shows "update_derivative p e now = 0
    \<and> fst (update p e now) =
        clip (clip (kp p * e + ki p * integral (snd (update p e now)) + 0)
                (min_output p) (max_output p))
          (previous_output p - delta p) (previous_output p + delta p)
    \<and> integral (snd (update p e now)) =
        clip (integral p + e * (now - previous_time p)) (max_integral p) (max_integral p)
    \<and> previous_time (snd (update p e now)) = now
    \<and> previous_error (snd (update p e now)) = Some e
    \<and> previous_output (snd (update p e now)) = fst (update p e now)
    \<and> (\<forall>e2 now2. now < now2 \<longrightarrow>
          update_derivative (snd (update p e now)) e2 now2 = kd p * (e2 - e) / (now2 - now))"
  using assms
  by (simp add: update_def update_output_def update_derivative_def update_integral_def
      update_proportional_def update_dt_def Let_def)

lemma pid_late_fields:
  "kp pid_late = 1" "kd pid_late = 1" "ki pid_late = 1" "min_output pid_late = - 1"
  "max_output pid_late = 1" "delta pid_late = 0.05" "min_integral pid_late = - 1"
  "max_integral pid_late = 1" "integral pid_late = 0" "previous_output pid_late = 0"
  "previous_time pid_late = 5" "previous_error pid_late = None"
  by (simp_all add: pid_late_def PID_init_def reset_def)

text \<open>
  Claim C6. The claim: when \<open>dt\<close> is not positive the derivative term is 0 while the
  proportional term, the integral accumulation and the two output limits still apply,
  and \<open>previous_time\<close> is advanced. The code: the regulator \<open>pid_late\<close>, last updated
  at time 5, is updated at time 4 with error 1, so \<open>dt = -1\<close>. The derivative term is 0
  and \<open>previous_time\<close> becomes 4, as claimed. But the accumulation is lost in the clip
  whose two bounds are \<open>max_integral\<close>: the code stores the integral 1, where
  accumulating \<open>1 * (-1)\<close> and clamping to \<open>[-1, 1]\<close> gives \<open>-1\<close>, and it returns
  0.05, where the terms of the claim give 0.
\<close>

theorem C6_nonpositive_dt_failing_input:
  "update_dt pid_late 4 \<le> 0
   \<and> update_derivative pid_late 1 4 = 0
   \<and> previous_time (snd (update pid_late 1 4)) = 4
   \<and> integral (snd (update pid_late 1 4)) = 1
   \<and> clip (integral pid_late + 1 * (4 - previous_time pid_late))
        (min_integral pid_late) (max_integral pid_late) = - 1
   \<and> fst (update pid_late 1 4) = 0.05
   \<and> clip (clip (kp pid_late * 1 + ki pid_late * (- 1) + 0)
              (min_output pid_late) (max_output pid_late))
        (previous_output pid_late - delta pid_late)
        (previous_output pid_late + delta pid_late) = 0"
  by (simp add: update_def update_output_def update_derivative_def update_integral_def
      update_proportional_def update_dt_def Let_def clip_def pid_late_fields)













text \<open>A \<open>delta\<close> of 0 freezes the output at its previous value, whatever the error.\<close>

lemma update_zero_delta:
  "delta p = 0 \<Longrightarrow> fst (update p e now) = previous_output p"
  by (simp add: update_fst update_output_def Let_def clip_def)




section \<open>Properties of the controller\<close>

subsection \<open>What \<open>np.arctan2\<close> is modelled as\<close>

lemma arctan2_range: "- pi < arctan2 x1 x2 \<and> arctan2 x1 x2 \<le> pi"
proof -
  have b: "- (pi / 2) < arctan (x1 / x2)" "arctan (x1 / x2) < pi / 2"
    using arctan_bounded [of "x1 / x2"] by simp_all
  have neg: "x2 < 0 \<Longrightarrow> 0 \<le> x1 \<Longrightarrow> arctan (x1 / x2) \<le> 0"
    by (simp add: divide_nonneg_neg arctan_le_zero_iff)
  have pos: "x2 < 0 \<Longrightarrow> x1 < 0 \<Longrightarrow> 0 < arctan (x1 / x2)"
    by (simp add: divide_neg_neg zero_less_arctan_iff)
  show ?thesis
    using b neg pos pi_gt_zero by (auto simp: arctan2_def)
qed

lemma arctan2_polar:
  assumes "x2 \<noteq> 0 \<or> x1 \<noteq> 0"
  shows "hypot x2 x1 * cos (arctan2 x1 x2) = x2 \<and> hypot x2 x1 * sin (arctan2 x1 x2) = x1"
proof (cases "x2 = 0")
  case True
  then show ?thesis using assms by (simp add: arctan2_def hypot_def)
next
  case False
  define r where "r = sqrt (1 + (x1 / x2)\<^sup>2)"
  have p: "0 < r"
    unfolding r_def by (simp add: add_pos_nonneg)
  have "x2\<^sup>2 + x1\<^sup>2 = x2\<^sup>2 * (1 + (x1 / x2)\<^sup>2)"
    using False by (simp add: field_simps power2_eq_square)
  then have h: "hypot x2 x1 = \<bar>x2\<bar> * r"
    by (simp add: hypot_def r_def real_sqrt_mult)
  have c: "hypot x2 x1 * cos (arctan (x1 / x2)) = \<bar>x2\<bar>"
    using p by (simp add: h cos_arctan r_def [symmetric])
  have sn: "hypot x2 x1 * sin (arctan (x1 / x2)) = \<bar>x2\<bar> * (x1 / x2)"
    using p by (simp add: h sin_arctan r_def [symmetric])
  show ?thesis
  proof (cases "0 < x2")
    case True
    then show ?thesis using c sn by (simp add: arctan2_def)
  next
    case neg: False
    then have n: "x2 < 0" using False by simp
    have "hypot x2 x1 * cos (arctan (x1 / x2) + pi) = x2"
      "hypot x2 x1 * sin (arctan (x1 / x2) + pi) = x1"
      "hypot x2 x1 * cos (arctan (x1 / x2) - pi) = x2"
      "hypot x2 x1 * sin (arctan (x1 / x2) - pi) = x1"
      using c sn n by (simp_all add: cos_diff sin_diff)
    then show ?thesis using n by (simp add: arctan2_def)
  qed
qed

lemma arctan2_ahead: "0 < d \<Longrightarrow> arctan2 0 d = 0"
  by (simp add: arctan2_def)

lemma arctan2_behind: "d < 0 \<Longrightarrow> arctan2 0 d = pi"
  by (simp add: arctan2_def)

subsection \<open>The parts of \<open>control\<close>\<close>

lemma control_command_twist:
  "twist (control_command s now_angular now_linear) =
     \<lparr>linear_x = (if \<bar>angular_error s\<bar> > angular_tolerance s then rotate_lin_vel s
                   else fst (update (pid_linear s) (linear_error s) now_linear)),
      angular_z = fst (update (pid_angular s) (angular_error s) now_angular)\<rparr>"
  by (simp add: control_command_def Let_def split_def)

lemma control_command_pids:
  "pid_angular (control_command s now_angular now_linear) =
     snd (update (pid_angular s) (angular_error s) now_angular)"
  "pid_linear (control_command s now_angular now_linear) =
     snd (update (pid_linear s) (linear_error s) now_linear)"
  by (simp_all add: control_command_def Let_def split_def)

lemma control_command_prev_vel:
  "prev_angular_vel (control_command s now_angular now_linear) =
     fst (update (pid_angular s) (angular_error s) now_angular)"
  "prev_linear_vel (control_command s now_angular now_linear) =
     fst (update (pid_linear s) (linear_error s) now_linear)"
  by (simp_all add: control_command_def Let_def split_def)

lemma control_command_unchanged:
  "robot_radius (control_command s now_angular now_linear) = robot_radius s"
  "angular_tolerance (control_command s now_angular now_linear) = angular_tolerance s"
  "rotate_lin_vel (control_command s now_angular now_linear) = rotate_lin_vel s"
  "need_waypoint (control_command s now_angular now_linear) = need_waypoint s"
  "self_i (control_command s now_angular now_linear) = self_i s"
  "states (control_command s now_angular now_linear) = states s"
  "published (control_command s now_angular now_linear) = published s"
  "odom (control_command s now_angular now_linear) = odom s"
  "waypoint (control_command s now_angular now_linear) = waypoint s"
  by (simp_all add: control_command_def Let_def split_def)

lemma publish_fields:
  "need_waypoint (publish s) = need_waypoint s"
  "waypoint (publish s) = waypoint s"
  "robot_radius (publish s) = robot_radius s"
  "angular_tolerance (publish s) = angular_tolerance s"
  "rotate_lin_vel (publish s) = rotate_lin_vel s"
  "pid_linear (publish s) = pid_linear s"
  "pid_angular (publish s) = pid_angular s"
  "twist (publish s) = twist s"
  "published (publish s) = published s @ [twist s]"
  by (simp_all add: publish_def)

lemma control_exhausted:
  assumes "dist s < robot_radius s" and "self_i s = Some n" and "states s = Some []"
  shows "fst (control s now_angular now_linear) = Inl IndexError"
    and "published (snd (control s now_angular now_linear)) = published s"
    and "need_waypoint (snd (control s now_angular now_linear))"
    and "twist (snd (control s now_angular now_linear))
         = twist (control_command s now_angular now_linear)"
  using assms
  by (simp_all add: control_def Let_def get_new_waypoint_def control_command_unchanged)

lemma control_no_arrival:
  assumes "\<not> dist s < robot_radius s"
  shows "control s now_angular now_linear =
           (Inr (), publish (control_command s now_angular now_linear))"
  using assms by (simp add: control_def Let_def control_command_unchanged)

lemma control_advance:
  assumes "dist s < robot_radius s" and "self_i s = Some n" and "states s = Some (st # rest)"
  shows "control s now_angular now_linear =
     (Inr (), publish ((control_command s now_angular now_linear)
        \<lparr>need_waypoint := False, self_i := Some (n + 1), states := Some rest,
         waypoint := set_waypoint (waypoint s) st\<rparr>))"
  using assms
  by (simp add: control_def Let_def get_new_waypoint_def control_command_unchanged publish_def)

lemma control_twist:
  "twist (snd (control s now_angular now_linear)) =
     twist (control_command s now_angular now_linear)"
  by (simp add: control_def Let_def get_new_waypoint_def publish_def
      split: option.splits list.splits)

lemma control_pids:
  "pid_linear (snd (control s now_angular now_linear)) =
     pid_linear (control_command s now_angular now_linear)"
  "pid_angular (snd (control s now_angular now_linear)) =
     pid_angular (control_command s now_angular now_linear)"
  by (simp_all add: control_def Let_def get_new_waypoint_def publish_def
      split: option.splits list.splits)

lemma control_published:
  "published (snd (control s now_angular now_linear)) =
     (if fst (control s now_angular now_linear) = Inr ()
      then published s @ [twist (control_command s now_angular now_linear)]
      else published s)"
  by (simp add: control_def Let_def get_new_waypoint_def publish_def control_command_unchanged
      split: option.splits list.splits)

lemma control_previous_output:
  "previous_output (pid_linear (snd (control s now_angular now_linear))) =
     fst (update (pid_linear s) (linear_error s) now_linear)"
  by (simp add: control_pids control_command_pids update_snd_previous_output update_fst)

lemma odom_callback_awaiting:
  "need_waypoint s \<Longrightarrow> odom_callback s msg now_angular now_linear = (Inr (), set_odom s msg)"
  by (simp add: odom_callback_def set_odom_def Let_def)

lemma odom_callback_tracking:
  "\<not> need_waypoint s \<Longrightarrow>
   odom_callback s msg now_angular now_linear = control (set_odom s msg) now_angular now_linear"
  by (simp add: odom_callback_def set_odom_def Let_def)

lemma set_odom_fields:
  "need_waypoint (set_odom s msg) = need_waypoint s"
  "self_i (set_odom s msg) = self_i s"
  "states (set_odom s msg) = states s"
  "waypoint (set_odom s msg) = waypoint s"
  "robot_radius (set_odom s msg) = robot_radius s"
  "angular_tolerance (set_odom s msg) = angular_tolerance s"
  "rotate_lin_vel (set_odom s msg) = rotate_lin_vel s"
  "published (set_odom s msg) = published s"
  "pid_angular (set_odom s msg) = pid_angular s"
  "pid_linear (set_odom s msg) = pid_linear s"
  "twist (set_odom s msg) = twist s"
  "odom (set_odom s msg) 0 = pose_position_x msg"
  "odom (set_odom s msg) 1 = pose_position_y msg"
  "odom (set_odom s msg) (Suc 0) = pose_position_y msg"
  "odom (set_odom s msg) 2 = pose_orientation_yaw msg"
  by (simp_all add: set_odom_def)

text \<open>
  The slew limits of the controller's regulators: 0.01 and 0.05 at construction and
  after every event, so never negative, and the outputs of consecutive calls of either
  regulator differ by at most its \<open>delta\<close>.
\<close>

lemma step_delta:
  assumes "delta (pid_angular s) = 0.01" and "delta (pid_linear s) = 0.05"
  shows "delta (pid_angular (snd (step s ev))) = 0.01
       \<and> delta (pid_linear (snd (step s ev))) = 0.05"
proof (cases ev)
  case (Odom msg now_angular now_linear)
  show ?thesis
  proof (cases "need_waypoint s")
    case True
    then show ?thesis
      using assms Odom by (simp add: odom_callback_awaiting set_odom_fields)
  next
    case False
    then show ?thesis
      using assms Odom
      by (simp add: odom_callback_tracking control_pids control_command_pids update_snd_delta
          set_odom_fields)
  qed
next
  case (States msg_states)
  then show ?thesis
    using assms by (cases msg_states) (simp_all add: states_callback_def Let_def)
next
  case (Params config)
  then show ?thesis
    by (simp add: param_callback_def)
qed

lemma run_delta:
  "delta (pid_angular (run (init empty5 t_angular t_linear) evs)) = 0.01
   \<and> delta (pid_linear (run (init empty5 t_angular t_linear) evs)) = 0.05"
proof -
  have g: "delta (pid_angular s) = 0.01 \<Longrightarrow> delta (pid_linear s) = 0.05 \<Longrightarrow>
           delta (pid_angular (run s evs)) = 0.01 \<and> delta (pid_linear (run s evs)) = 0.05" for s
  proof (induction evs arbitrary: s)
    case Nil
    then show ?case by simp
  next
    case (Cons ev evs)
    then show ?case
      using step_delta [of s ev] by simp
  qed
  show ?thesis
    by (rule g) (simp_all add: init_def PID_init_def reset_def)
qed

lemma run_slew:
  "\<bar>fst (update (snd (update (pid_linear (run (init empty5 t_angular t_linear) evs)) e1 now1))
           e2 now2)
     - fst (update (pid_linear (run (init empty5 t_angular t_linear) evs)) e1 now1)\<bar>
   \<le> delta (pid_linear (run (init empty5 t_angular t_linear) evs))"
  "\<bar>fst (update (snd (update (pid_angular (run (init empty5 t_angular t_linear) evs)) e1 now1))
           e2 now2)
     - fst (update (pid_angular (run (init empty5 t_angular t_linear) evs)) e1 now1)\<bar>
   \<le> delta (pid_angular (run (init empty5 t_angular t_linear) evs))"
proof -
  let ?l = "pid_linear (run (init empty5 t_angular t_linear) evs)"
  let ?a = "pid_angular (run (init empty5 t_angular t_linear) evs)"
  have "0 \<le> delta (snd (update ?l e1 now1))" "0 \<le> delta (snd (update ?a e1 now1))"
    using run_delta [of empty5 t_angular t_linear evs] by (simp_all add: update_snd_delta)
  then show
    "\<bar>fst (update (snd (update ?l e1 now1)) e2 now2) - fst (update ?l e1 now1)\<bar> \<le> delta ?l"
    "\<bar>fst (update (snd (update ?a e1 now1)) e2 now2) - fst (update ?a e1 now1)\<bar> \<le> delta ?a"
    using update_output_slew [of "snd (update ?l e1 now1)" e2 now2]
      update_output_slew [of "snd (update ?a e1 now1)" e2 now2]
    by (simp_all add: update_fst update_snd_previous_output update_snd_delta)
qed

subsection \<open>The worked examples\<close>

lemma fst_states_callback: "fst (states_callback s (w # ws)) = Inr ()"
  by (simp add: states_callback_def Let_def)

lemma tracking_start_fields:
  "need_waypoint (tracking_start (w # ws)) = False"
  "self_i (tracking_start (w # ws)) = Some 0"
  "states (tracking_start (w # ws)) = Some ws"
  "waypoint (tracking_start (w # ws)) = set_waypoint (\<lambda>k. 0) w"
  "robot_radius (tracking_start (w # ws)) = 0.2"
  "angular_tolerance (tracking_start (w # ws)) = 0.2"
  "rotate_lin_vel (tracking_start (w # ws)) = 0.2"
  "published (tracking_start (w # ws)) = []"
  "pid_angular (tracking_start (w # ws)) = PID_init 1 0 0 (-1) 1 0.01 0 0 ''Angular'' 0"
  "pid_linear (tracking_start (w # ws)) = PID_init 1 0 0 (-0.5) 0.5 0.05 0 0 ''Linear'' 0"
  by (simp_all add: tracking_start_def states_callback_def init_def Let_def)

lemma near_dist: "dist (set_odom (tracking_start [wp_near]) pose_origin) = 0.1"
  by (simp add: dist_def hypot_def x_diff_def y_diff_def set_odom_fields tracking_start_fields
      set_waypoint_def wp_near_def pose_origin_def real_sqrt_abs)

lemma left_errors:
  "x_relative (set_odom (tracking_start [wp_left]) pose_origin) = 0"
  "y_relative (set_odom (tracking_start [wp_left]) pose_origin) = 5"
  "dist (set_odom (tracking_start [wp_left]) pose_origin) = 5"
  by (simp_all add: x_relative_def y_relative_def dist_def hypot_def x_diff_def y_diff_def
      set_odom_fields tracking_start_fields set_waypoint_def wp_left_def pose_origin_def)

lemma left_angular_error:
  "angular_error (set_odom (tracking_start [wp_left]) pose_origin) = pi / 2"
  by (simp add: angular_error_def left_errors arctan2_def)

lemma angular_first_output:
  "fst (update (PID_init 1 0 0 (-1) 1 0.01 0 0 ''Angular'' 0) (pi / 2) 1) = 0.01"
proof -
  have "1 \<le> pi / 2" using pi_ge_two by simp
  then show ?thesis
    by (simp add: update_def update_output_def update_integral_def update_derivative_def
      update_proportional_def update_dt_def PID_init_def reset_def clip_def Let_def)
qed

lemma linear_first_output:
  "update_output (PID_init 1 0 0 (-0.5) 0.5 0.05 0 0 ''Linear'' 0) 0 1 = 0"
  by (simp add: update_output_def update_integral_def update_derivative_def
      update_proportional_def update_dt_def PID_init_def reset_def clip_def Let_def)


subsection \<open>Arrival with an empty queue\<close>

text \<open>
  Claim C1. The claim: when the arrival check fires and no waypoint remains, the
  controller goes to the waiting state, publishes the stop command \<open>(0, 0)\<close> for that
  cycle, and no exception leaves the advance. The code: the list \<open>[wp_near]\<close> is
  received, its only waypoint \<open>(0.1, 0)\<close> becomes the current one and the queue is
  empty; the pose update at the origin is at distance 0.1, below the radius 0.2;
  \<open>get_new_waypoint\<close> pops the empty deque, \<open>IndexError\<close> leaves \<open>control\<close> and
  \<open>odom_callback\<close>, and nothing is published in that cycle. \<open>need_waypoint\<close> was set
  before the pop, so the next pose update returns without a command.
\<close>

theorem C1_queue_exhausted_raises:
  "fst (states_callback (init (\<lambda>k. 0) 0 0) [wp_near]) = Inr ()
   \<and> \<not> need_waypoint (tracking_start [wp_near])
   \<and> states (tracking_start [wp_near]) = Some []
   \<and> dist (set_odom (tracking_start [wp_near]) pose_origin)
        < robot_radius (set_odom (tracking_start [wp_near]) pose_origin)
   \<and> fst (odom_callback (tracking_start [wp_near]) pose_origin 1 1) = Inl IndexError
   \<and> published (snd (odom_callback (tracking_start [wp_near]) pose_origin 1 1)) = []
   \<and> need_waypoint (snd (odom_callback (tracking_start [wp_near]) pose_origin 1 1))
   \<and> fst (odom_callback (snd (odom_callback (tracking_start [wp_near]) pose_origin 1 1))
            pose_origin 2 2) = Inr ()
   \<and> published (snd (odom_callback (snd (odom_callback (tracking_start [wp_near])
            pose_origin 1 1)) pose_origin 2 2)) = []"
proof -
  let ?s = "set_odom (tracking_start [wp_near]) pose_origin"
  have c: "odom_callback (tracking_start [wp_near]) pose_origin 1 1 = control ?s 1 1"
    by (simp add: odom_callback_tracking tracking_start_fields)
  have d: "dist ?s < robot_radius ?s"
    by (simp add: near_dist set_odom_fields tracking_start_fields)
  have i: "self_i ?s = Some 0" and q: "states ?s = Some []"
    by (simp_all add: set_odom_fields tracking_start_fields)
  have e: "fst (control ?s 1 1) = Inl IndexError"
    and p: "published (snd (control ?s 1 1)) = []"
    and n: "need_waypoint (snd (control ?s 1 1))"
    using control_exhausted [OF d i q, of 1 1]
    by (simp_all add: set_odom_fields tracking_start_fields)
  have "odom_callback (snd (control ?s 1 1)) pose_origin 2 2
        = (Inr (), set_odom (snd (control ?s 1 1)) pose_origin)"
    using n by (rule odom_callback_awaiting)
  then show ?thesis
    using d e p n
    by (simp add: c fst_states_callback tracking_start_fields set_odom_fields)
qed

subsection \<open>The rotate-in-place override\<close>

text \<open>
  Claim C4. In a cycle of \<open>control\<close> where the absolute angular error exceeds
  \<open>angular_tolerance\<close>, the command of the cycle has the linear component
  \<open>rotate_lin_vel\<close> and the angular component returned by the angular regulator; it is
  the message published when the cycle publishes, that is, unless the advance raises.
\<close>

theorem C4_heading_override:
  assumes "\<bar>angular_error s\<bar> > angular_tolerance s"
  shows "twist (snd (control s now_angular now_linear)) =
           \<lparr>linear_x = rotate_lin_vel s,
            angular_z = fst (update (pid_angular s) (angular_error s) now_angular)\<rparr>
       \<and> published (snd (control s now_angular now_linear)) =
           (if fst (control s now_angular now_linear) = Inr ()
            then published s @ [\<lparr>linear_x = rotate_lin_vel s,
                   angular_z = fst (update (pid_angular s) (angular_error s) now_angular)\<rparr>]
            else published s)"
  using assms by (simp add: control_twist control_published control_command_twist)

theorem C4_heading_override_witness:
  "\<bar>angular_error (set_odom (tracking_start [wp_left]) pose_origin)\<bar>
     > angular_tolerance (set_odom (tracking_start [wp_left]) pose_origin)
   \<and> twist (snd (control (set_odom (tracking_start [wp_left]) pose_origin) 1 1))
       = \<lparr>linear_x = 0.2, angular_z = 0.01\<rparr>
   \<and> fst (control (set_odom (tracking_start [wp_left]) pose_origin) 1 1) = Inr ()
   \<and> published (snd (control (set_odom (tracking_start [wp_left]) pose_origin) 1 1))
       = [\<lparr>linear_x = 0.2, angular_z = 0.01\<rparr>]"
proof -
  have h: "\<bar>angular_error (set_odom (tracking_start [wp_left]) pose_origin)\<bar>
     > angular_tolerance (set_odom (tracking_start [wp_left]) pose_origin)"
    using pi_ge_two by (simp add: left_angular_error set_odom_fields tracking_start_fields)
  have r: "fst (control (set_odom (tracking_start [wp_left]) pose_origin) 1 1) = Inr ()"
    by (simp add: control_no_arrival left_errors set_odom_fields tracking_start_fields)
  show ?thesis
    using h r C4_heading_override [OF h, of 1 1] angular_first_output
    by (simp add: left_angular_error set_odom_fields tracking_start_fields)
qed

subsection \<open>The frame transform\<close>

lemma relative_along_heading:
  assumes "waypoint s 0 = odom s 0 + d * cos (odom s 2)"
    and "waypoint s 1 = odom s 1 + d * sin (odom s 2)"
  shows "x_relative s = d" and "y_relative s = 0"
proof -
  have "d * (cos (odom s 2) * cos (odom s 2)) + d * (sin (odom s 2) * sin (odom s 2))
        = d * ((sin (odom s 2))\<^sup>2 + (cos (odom s 2))\<^sup>2)"
    by (simp add: power2_eq_square distrib_left)
  then have "d * (cos (odom s 2) * cos (odom s 2)) + d * (sin (odom s 2) * sin (odom s 2)) = d"
    by simp
  then show "x_relative s = d"
    using assms by (simp add: x_relative_def x_diff_def y_diff_def mult.left_commute)
  show "y_relative s = 0"
    using assms by (simp add: y_relative_def x_diff_def y_diff_def)
qed

text \<open>
  Claim C5. With \<open>dx = waypoint.x - pose.x\<close>, \<open>dy = waypoint.y - pose.y\<close> and
  \<open>yaw = pose.yaw\<close>, the angular error is \<open>arctan2\<close> of the lateral offset
  \<open>- sin yaw * dx + cos yaw * dy\<close> and the forward offset \<open>cos yaw * dx + sin yaw * dy\<close>,
  the linear error is \<open>tanh\<close> of the forward offset, and these are the errors the two
  regulators are updated with. A waypoint straight ahead at yaw 0 gives the angular
  error 0 and one straight behind gives an angular error of magnitude \<open>pi\<close>; the same
  holds at any yaw for a waypoint on the line of the heading.
\<close>

theorem C5_frame_transform:
  "angular_error s =
     arctan2 (- sin (odom s 2) * (waypoint s 0 - odom s 0)
                + cos (odom s 2) * (waypoint s 1 - odom s 1))
             (cos (odom s 2) * (waypoint s 0 - odom s 0)
                + sin (odom s 2) * (waypoint s 1 - odom s 1))
   \<and> linear_error s =
       tanh (cos (odom s 2) * (waypoint s 0 - odom s 0)
               + sin (odom s 2) * (waypoint s 1 - odom s 1))
   \<and> pid_angular (snd (control s now_angular now_linear)) =
       snd (update (pid_angular s) (angular_error s) now_angular)
   \<and> pid_linear (snd (control s now_angular now_linear)) =
       snd (update (pid_linear s) (linear_error s) now_linear)
   \<and> (odom s 2 = 0 \<and> waypoint s 1 = odom s 1 \<and> odom s 0 < waypoint s 0
        \<longrightarrow> angular_error s = 0)
   \<and> (odom s 2 = 0 \<and> waypoint s 1 = odom s 1 \<and> waypoint s 0 < odom s 0
        \<longrightarrow> \<bar>angular_error s\<bar> = pi)
   \<and> (\<forall>d. waypoint s 0 = odom s 0 + d * cos (odom s 2)
          \<and> waypoint s 1 = odom s 1 + d * sin (odom s 2)
        \<longrightarrow> (0 < d \<longrightarrow> angular_error s = 0) \<and> (d < 0 \<longrightarrow> \<bar>angular_error s\<bar> = pi))"
proof (intro conjI impI allI)
  show "angular_error s =
     arctan2 (- sin (odom s 2) * (waypoint s 0 - odom s 0)
                + cos (odom s 2) * (waypoint s 1 - odom s 1))
             (cos (odom s 2) * (waypoint s 0 - odom s 0)
                + sin (odom s 2) * (waypoint s 1 - odom s 1))"
    by (simp add: angular_error_def x_relative_def y_relative_def x_diff_def y_diff_def)
  show "linear_error s =
       tanh (cos (odom s 2) * (waypoint s 0 - odom s 0)
               + sin (odom s 2) * (waypoint s 1 - odom s 1))"
    by (simp add: linear_error_def x_relative_def x_diff_def y_diff_def)
  show "pid_angular (snd (control s now_angular now_linear)) =
       snd (update (pid_angular s) (angular_error s) now_angular)"
    by (simp add: control_pids control_command_pids)
  show "pid_linear (snd (control s now_angular now_linear)) =
       snd (update (pid_linear s) (linear_error s) now_linear)"
    by (simp add: control_pids control_command_pids)
next
  assume "odom s 2 = 0 \<and> waypoint s 1 = odom s 1 \<and> odom s 0 < waypoint s 0"
  then show "angular_error s = 0"
    by (simp add: angular_error_def x_relative_def y_relative_def x_diff_def y_diff_def
        arctan2_def)
next
  assume "odom s 2 = 0 \<and> waypoint s 1 = odom s 1 \<and> waypoint s 0 < odom s 0"
  then show "\<bar>angular_error s\<bar> = pi"
    by (simp add: angular_error_def x_relative_def y_relative_def x_diff_def y_diff_def
        arctan2_def)
next
  fix d
  assume a: "waypoint s 0 = odom s 0 + d * cos (odom s 2)
          \<and> waypoint s 1 = odom s 1 + d * sin (odom s 2)"
  then have r: "x_relative s = d" "y_relative s = 0"
    using relative_along_heading [of s d] by simp_all
  {
    assume "0 < d"
    then show "angular_error s = 0"
      by (simp add: angular_error_def r arctan2_ahead)
  }
  {
    assume "d < 0"
    then show "\<bar>angular_error s\<bar> = pi"
      by (simp add: angular_error_def r arctan2_behind)
  }
qed

theorem C5_frame_transform_witness:
  "odom (set_odom (tracking_start [wp_near]) pose_origin) 2 = 0
   \<and> waypoint (set_odom (tracking_start [wp_near]) pose_origin) 1
       = odom (set_odom (tracking_start [wp_near]) pose_origin) 1
   \<and> odom (set_odom (tracking_start [wp_near]) pose_origin) 0
       < waypoint (set_odom (tracking_start [wp_near]) pose_origin) 0
   \<and> angular_error (set_odom (tracking_start [wp_near]) pose_origin) = 0
   \<and> odom (set_odom (tracking_start [wp_behind]) pose_origin) 2 = 0
   \<and> waypoint (set_odom (tracking_start [wp_behind]) pose_origin) 1
       = odom (set_odom (tracking_start [wp_behind]) pose_origin) 1
   \<and> waypoint (set_odom (tracking_start [wp_behind]) pose_origin) 0
       < odom (set_odom (tracking_start [wp_behind]) pose_origin) 0
   \<and> \<bar>angular_error (set_odom (tracking_start [wp_behind]) pose_origin)\<bar> = pi"
proof -
  have a: "odom (set_odom (tracking_start [wp_near]) pose_origin) 2 = 0
   \<and> waypoint (set_odom (tracking_start [wp_near]) pose_origin) 1
       = odom (set_odom (tracking_start [wp_near]) pose_origin) 1
   \<and> odom (set_odom (tracking_start [wp_near]) pose_origin) 0
       < waypoint (set_odom (tracking_start [wp_near]) pose_origin) 0"
    by (simp add: set_odom_fields tracking_start_fields set_waypoint_def wp_near_def
        pose_origin_def)
  have b: "odom (set_odom (tracking_start [wp_behind]) pose_origin) 2 = 0
   \<and> waypoint (set_odom (tracking_start [wp_behind]) pose_origin) 1
       = odom (set_odom (tracking_start [wp_behind]) pose_origin) 1
   \<and> waypoint (set_odom (tracking_start [wp_behind]) pose_origin) 0
       < odom (set_odom (tracking_start [wp_behind]) pose_origin) 0"
    by (simp add: set_odom_fields tracking_start_fields set_waypoint_def wp_behind_def
        pose_origin_def)
  show ?thesis
    using a b C5_frame_transform [of "set_odom (tracking_start [wp_near]) pose_origin" 1 1]
      C5_frame_transform [of "set_odom (tracking_start [wp_behind]) pose_origin" 1 1]
    by blast
qed


subsection \<open>Waiting for waypoints\<close>

lemma step_awaiting:
  "need_waypoint s \<Longrightarrow> \<not> is_States ev \<Longrightarrow>
   need_waypoint (snd (step s ev)) \<and> published (snd (step s ev)) = published s
   \<and> twist (snd (step s ev)) = twist s \<and> fst (step s ev) = Inr ()"
  by (cases ev) (simp_all add: odom_callback_awaiting set_odom_def param_callback_def)

lemma run_awaiting:
  "need_waypoint s \<Longrightarrow> \<forall>ev\<in>set evs. \<not> is_States ev \<Longrightarrow>
   need_waypoint (run s evs) \<and> published (run s evs) = published s
   \<and> twist (run s evs) = twist s"
proof (induction evs arbitrary: s)
  case Nil
  then show ?case by simp
next
  case (Cons ev evs)
  have "need_waypoint (snd (step s ev))" "published (snd (step s ev)) = published s"
    "twist (snd (step s ev)) = twist s"
    using step_awaiting [of s ev] Cons.prems by simp_all
  then show ?case
    using Cons.IH [of "snd (step s ev)"] Cons.prems by simp
qed

text \<open>
  Claim C7. The constructed object is waiting for waypoints and has published nothing.
  A pose update received while waiting only stores the pose: it runs no regulator,
  changes no command and publishes nothing. Hence over any sequence of pose updates
  and configuration updates from construction, that is, before a waypoint list is
  received, the object stays waiting and nothing is published.
\<close>

theorem C7_awaiting_emits_nothing:
  "need_waypoint (init empty5 t_angular t_linear)
   \<and> published (init empty5 t_angular t_linear) = []
   \<and> (\<forall>s msg now_angular now_linear. need_waypoint s \<longrightarrow>
        odom_callback s msg now_angular now_linear =
          (Inr (), s\<lparr>odom := (odom s)(0 := pose_position_x msg,
                                    1 := pose_position_y msg,
                                    2 := pose_orientation_yaw msg,
                                    3 := twist_linear_x msg,
                                    4 := twist_angular_z msg)\<rparr>))
   \<and> (\<forall>evs. (\<forall>ev\<in>set evs. \<not> is_States ev) \<longrightarrow>
        need_waypoint (run (init empty5 t_angular t_linear) evs)
        \<and> published (run (init empty5 t_angular t_linear) evs) = [])"
proof -
  have a: "need_waypoint (init empty5 t_angular t_linear)"
    "published (init empty5 t_angular t_linear) = []"
    by (simp_all add: init_def)
  show ?thesis
    using a run_awaiting [OF a(1)] by (simp add: odom_callback_awaiting set_odom_def)
qed

theorem C7_awaiting_emits_nothing_witness:
  "need_waypoint (init (\<lambda>k. 0) 0 0)
   \<and> \<not> is_States (Odom pose_origin 1 1) \<and> \<not> is_States (Params cfg_inverted)
   \<and> \<not> is_States (Odom pose_turned 2 2)
   \<and> fst (odom_callback (init (\<lambda>k. 0) 0 0) pose_turned 1 1) = Inr ()
   \<and> published (snd (odom_callback (init (\<lambda>k. 0) 0 0) pose_turned 1 1)) = []
   \<and> need_waypoint
       (run (init (\<lambda>k. 0) 0 0) [Odom pose_origin 1 1, Params cfg_inverted, Odom pose_turned 2 2])
   \<and> published
       (run (init (\<lambda>k. 0) 0 0) [Odom pose_origin 1 1, Params cfg_inverted, Odom pose_turned 2 2])
     = []"
proof -
  have h: "\<forall>ev\<in>set [Odom pose_origin 1 1, Params cfg_inverted, Odom pose_turned 2 2].
        \<not> is_States ev"
    by simp
  have t: "need_waypoint (init (\<lambda>k. 0) 0 0) \<and> published (init (\<lambda>k. 0) 0 0) = []
     \<and> odom_callback (init (\<lambda>k. 0) 0 0) pose_turned 1 1 =
          (Inr (), (init (\<lambda>k. 0) 0 0)\<lparr>odom := (odom (init (\<lambda>k. 0) 0 0))
             (0 := pose_position_x pose_turned,
              1 := pose_position_y pose_turned,
              2 := pose_orientation_yaw pose_turned,
              3 := twist_linear_x pose_turned,
              4 := twist_angular_z pose_turned)\<rparr>)
     \<and> need_waypoint (run (init (\<lambda>k. 0) 0 0)
          [Odom pose_origin 1 1, Params cfg_inverted, Odom pose_turned 2 2])
     \<and> published (run (init (\<lambda>k. 0) 0 0)
          [Odom pose_origin 1 1, Params cfg_inverted, Odom pose_turned 2 2]) = []"
    using h C7_awaiting_emits_nothing [of "\<lambda>k. 0" 0 0] by blast
  then have "fst (odom_callback (init (\<lambda>k. 0) 0 0) pose_turned 1 1) = Inr ()"
    "published (snd (odom_callback (init (\<lambda>k. 0) 0 0) pose_turned 1 1)) = []"
    by simp_all
  then show ?thesis
    using t by simp
qed

subsection \<open>Configuration updates\<close>

text \<open>
  Claim C8, as the claim states it, fails: \<open>param_callback\<close> checks nothing. The
  configuration \<open>cfg_inverted\<close> has \<open>linear_min_output = 0.5\<close> above
  \<open>linear_max_output = -0.5\<close>; applied to the constructed object, whose linear limits
  are \<open>-0.5\<close> and \<open>0.5\<close>, it is not rejected and the inverted pair is stored.
\<close>

theorem C8_inverted_limits_counterexample:
  "cfg_linear_min_output cfg_inverted > cfg_linear_max_output cfg_inverted
   \<and> min_output (pid_linear (init (\<lambda>k. 0) 0 0)) = -0.5
   \<and> max_output (pid_linear (init (\<lambda>k. 0) 0 0)) = 0.5
   \<and> min_output (pid_linear (param_callback (init (\<lambda>k. 0) 0 0) cfg_inverted)) = 0.5
   \<and> max_output (pid_linear (param_callback (init (\<lambda>k. 0) 0 0) cfg_inverted)) = -0.5
   \<and> param_callback (init (\<lambda>k. 0) 0 0) cfg_inverted \<noteq> init (\<lambda>k. 0) 0 0"
proof -
  have m: "min_output (pid_linear (param_callback (init (\<lambda>k. 0) 0 0) cfg_inverted)) = 0.5"
    by (simp add: param_callback_def cfg_inverted_def)
  have i: "min_output (pid_linear (init (\<lambda>k. 0) 0 0)) = -0.5"
    by (simp add: init_def PID_init_def reset_def)
  have "param_callback (init (\<lambda>k. 0) 0 0) cfg_inverted \<noteq> init (\<lambda>k. 0) 0 0"
  proof
    assume "param_callback (init (\<lambda>k. 0) 0 0) cfg_inverted = init (\<lambda>k. 0) 0 0"
    then have "min_output (pid_linear (param_callback (init (\<lambda>k. 0) 0 0) cfg_inverted))
               = min_output (pid_linear (init (\<lambda>k. 0) 0 0))"
      by simp
    then show False using m i by simp
  qed
  moreover have "max_output (pid_linear (param_callback (init (\<lambda>k. 0) 0 0) cfg_inverted)) = -0.5"
    by (simp add: param_callback_def cfg_inverted_def)
  moreover have "max_output (pid_linear (init (\<lambda>k. 0) 0 0)) = 0.5"
    by (simp add: init_def PID_init_def reset_def)
  moreover have "cfg_linear_min_output cfg_inverted > cfg_linear_max_output cfg_inverted"
    by (simp add: cfg_inverted_def)
  ultimately show ?thesis using m i by simp
qed

text \<open>
  Claim C8, amended: a configuration update is applied as it is, whatever its values:
  the tolerance, the rotate-in-place speed and, for each regulator, the three gains,
  the integral limits and the output limits become those of the update, also when a
  limit pair is inverted; the arrival radius becomes 0.2 and the two slew limits 0.01
  and 0.05. No update is rejected.
\<close>

theorem C8_param_callback_applies:
  "angular_tolerance (param_callback s config) = cfg_angular_tolerance config
   \<and> rotate_lin_vel (param_callback s config) = cfg_rotate_lin_vel config
   \<and> robot_radius (param_callback s config) = 0.2
   \<and> kp (pid_angular (param_callback s config)) = cfg_angular_kp config
   \<and> ki (pid_angular (param_callback s config)) = cfg_angular_ki config
   \<and> kd (pid_angular (param_callback s config)) = cfg_angular_kd config
   \<and> min_integral (pid_angular (param_callback s config)) = cfg_angular_min_integral config
   \<and> max_integral (pid_angular (param_callback s config)) = cfg_angular_max_integral config
   \<and> min_output (pid_angular (param_callback s config)) = cfg_angular_min_output config
   \<and> max_output (pid_angular (param_callback s config)) = cfg_angular_max_output config
   \<and> delta (pid_angular (param_callback s config)) = 0.01
   \<and> kp (pid_linear (param_callback s config)) = cfg_linear_kp config
   \<and> ki (pid_linear (param_callback s config)) = cfg_linear_ki config
   \<and> kd (pid_linear (param_callback s config)) = cfg_linear_kd config
   \<and> min_integral (pid_linear (param_callback s config)) = cfg_linear_min_integral config
   \<and> max_integral (pid_linear (param_callback s config)) = cfg_linear_max_integral config
   \<and> min_output (pid_linear (param_callback s config)) = cfg_linear_min_output config
   \<and> max_output (pid_linear (param_callback s config)) = cfg_linear_max_output config
   \<and> delta (pid_linear (param_callback s config)) = 0.05"
  by (simp add: param_callback_def)


subsection \<open>The published linear command and the slew limit\<close>

lemma after_first_eq:
  "after_first = publish (control_command (set_odom (tracking_start [wp_left]) pose_origin) 1 1)"
  by (simp add: after_first_def odom_callback_tracking tracking_start_fields control_no_arrival
      left_errors set_odom_fields)

lemma after_first_fields:
  "need_waypoint after_first = False"
  "waypoint after_first = set_waypoint (\<lambda>k. 0) wp_left"
  "robot_radius after_first = 0.2"
  "angular_tolerance after_first = 0.2"
  "published after_first = [\<lparr>linear_x = 0.2,
      angular_z = fst (update (PID_init 1 0 0 (-1) 1 0.01 0 0 ''Angular'' 0) (pi / 2) 1)\<rparr>]"
  "delta (pid_linear after_first) = 0.05"
  "previous_output (pid_linear after_first) = 0"
proof -
  have x: "linear_error (set_odom (tracking_start [wp_left]) pose_origin) = 0"
    by (simp add: linear_error_def left_errors)
  have t: "angular_tolerance (set_odom (tracking_start [wp_left]) pose_origin)
           < \<bar>angular_error (set_odom (tracking_start [wp_left]) pose_origin)\<bar>"
    using pi_ge_two by (simp add: left_angular_error set_odom_fields tracking_start_fields)
  show "need_waypoint after_first = False"
    "waypoint after_first = set_waypoint (\<lambda>k. 0) wp_left"
    "robot_radius after_first = 0.2"
    "angular_tolerance after_first = 0.2"
    by (simp_all add: after_first_eq publish_fields control_command_unchanged set_odom_fields
      tracking_start_fields)
  show "published after_first = [\<lparr>linear_x = 0.2,
      angular_z = fst (update (PID_init 1 0 0 (-1) 1 0.01 0 0 ''Angular'' 0) (pi / 2) 1)\<rparr>]"
    using t
    by (simp add: after_first_eq publish_fields control_command_unchanged control_command_twist
        set_odom_fields tracking_start_fields left_angular_error)
  show "delta (pid_linear after_first) = 0.05"
    by (simp add: after_first_eq publish_fields control_command_pids update_snd_delta
        set_odom_fields tracking_start_fields PID_init_def reset_def)
  show "previous_output (pid_linear after_first) = 0"
    using linear_first_output
    by (simp add: after_first_eq publish_fields control_command_pids
        update_snd_previous_output set_odom_fields tracking_start_fields x)
qed

lemma turned_errors:
  "x_relative (set_odom after_first pose_turned) = 5"
  "y_relative (set_odom after_first pose_turned) = 0"
  "dist (set_odom after_first pose_turned) = 5"
  by (simp_all add: x_relative_def y_relative_def dist_def hypot_def x_diff_def y_diff_def
      set_odom_fields after_first_fields set_waypoint_def wp_left_def pose_turned_def)

lemma second_cycle:
  "odom_callback after_first pose_turned 2 2 =
     (Inr (), publish (control_command (set_odom after_first pose_turned) 2 2))"
  by (simp add: odom_callback_tracking after_first_fields control_no_arrival turned_errors
      set_odom_fields)

lemma second_linear:
  "linear_x (twist (control_command (set_odom after_first pose_turned) 2 2)) \<le> 0.05"
proof -
  have "angular_error (set_odom after_first pose_turned) = 0"
    by (simp add: angular_error_def turned_errors arctan2_def)
  then have "linear_x (twist (control_command (set_odom after_first pose_turned) 2 2))
     = update_output (pid_linear after_first) (linear_error (set_odom after_first pose_turned)) 2"
    by (simp add: control_command_twist set_odom_fields after_first_fields update_fst)
  moreover have "\<bar>update_output (pid_linear after_first)
                    (linear_error (set_odom after_first pose_turned)) 2
                  - previous_output (pid_linear after_first)\<bar> \<le> delta (pid_linear after_first)"
    by (rule update_output_slew) (simp add: after_first_fields)
  ultimately show ?thesis
    by (simp add: after_first_fields)
qed

lemma two_cycles:
  "published (run (tracking_start [wp_left]) [Odom pose_origin 1 1, Odom pose_turned 2 2])
   = published (tracking_start [wp_left])
     @ [\<lparr>linear_x = 0.2,
          angular_z = fst (update (PID_init 1 0 0 (-1) 1 0.01 0 0 ''Angular'' 0) (pi / 2) 1)\<rparr>,
        twist (control_command (set_odom after_first pose_turned) 2 2)]"
proof -
  have e: "run (tracking_start [wp_left]) [Odom pose_origin 1 1, Odom pose_turned 2 2]
        = snd (odom_callback after_first pose_turned 2 2)"
    by (simp add: after_first_def)
  show ?thesis
    unfolding e
    by (simp add: second_cycle publish_fields control_command_unchanged set_odom_fields
        after_first_fields tracking_start_fields)
qed

text \<open>
  Claim C9. After every cycle of \<open>control\<close> the linear regulator's \<open>previous_output\<close>,
  and the copy \<open>prev_linear_vel\<close>, hold the output the regulator returned, whether or not
  the override then replaced the published linear command. And the published linear
  command is not slew limited: there are a tracking controller whose linear \<open>delta\<close> is
  not negative and two consecutive pose updates, both tracking cycles that publish, whose
  published linear commands differ by more than that \<open>delta\<close>. (In the proof: tracking a
  waypoint 5 to the left, the first cycle rotates in place and publishes 0.2; the
  second, with the heading on the waypoint, publishes the regulator's output, at most
  0.05, while \<open>delta\<close> is 0.05.)
\<close>

theorem C9_published_linear_not_slew_limited:
  "(\<forall>s now_angular now_linear.
      previous_output (pid_linear (snd (control s now_angular now_linear)))
        = fst (update (pid_linear s) (linear_error s) now_linear)
      \<and> prev_linear_vel (snd (control s now_angular now_linear))
        = fst (update (pid_linear s) (linear_error s) now_linear))
   \<and> (\<exists>s msg1 a1 l1 msg2 a2 l2 cmd1 cmd2.
        \<not> need_waypoint s
        \<and> \<not> need_waypoint (run s [Odom msg1 a1 l1])
        \<and> published (run s [Odom msg1 a1 l1]) = published s @ [cmd1]
        \<and> published (run s [Odom msg1 a1 l1, Odom msg2 a2 l2]) = published s @ [cmd1, cmd2]
        \<and> 0 \<le> delta (pid_linear s)
        \<and> delta (pid_linear (run s [Odom msg1 a1 l1])) = delta (pid_linear s)
        \<and> \<bar>linear_x cmd2 - linear_x cmd1\<bar> > delta (pid_linear s))"
proof (intro conjI allI)
  fix s now_angular now_linear
  show "previous_output (pid_linear (snd (control s now_angular now_linear)))
        = fst (update (pid_linear s) (linear_error s) now_linear)"
    by (rule control_previous_output)
  show "prev_linear_vel (snd (control s now_angular now_linear))
        = fst (update (pid_linear s) (linear_error s) now_linear)"
    by (simp add: control_def Let_def get_new_waypoint_def publish_def control_command_prev_vel
        split: option.splits list.splits)
next
  let ?s = "tracking_start [wp_left]"
  let ?c1 = "\<lparr>linear_x = 0.2,
          angular_z = fst (update (PID_init 1 0 0 (-1) 1 0.01 0 0 ''Angular'' 0) (pi / 2) 1)\<rparr>"
  let ?c2 = "twist (control_command (set_odom after_first pose_turned) 2 2)"
  have r1: "run ?s [Odom pose_origin 1 1] = after_first"
    by (simp add: after_first_def)
  have "\<not> need_waypoint ?s"
    by (simp add: tracking_start_fields)
  moreover have "\<not> need_waypoint (run ?s [Odom pose_origin 1 1])"
    unfolding r1 by (simp add: after_first_fields)
  moreover have "published (run ?s [Odom pose_origin 1 1]) = published ?s @ [?c1]"
    unfolding r1 by (simp add: after_first_fields tracking_start_fields)
  moreover have "published (run ?s [Odom pose_origin 1 1, Odom pose_turned 2 2])
                 = published ?s @ [?c1, ?c2]"
    by (rule two_cycles)
  moreover have "0 \<le> delta (pid_linear ?s)" "delta (pid_linear ?s) = 0.05"
    by (simp_all add: tracking_start_fields PID_init_def reset_def)
  moreover have "delta (pid_linear (run ?s [Odom pose_origin 1 1])) = delta (pid_linear ?s)"
    unfolding r1 by (simp add: after_first_fields tracking_start_fields PID_init_def reset_def)
  moreover have "\<bar>linear_x ?c2 - linear_x ?c1\<bar> > delta (pid_linear ?s)"
    using second_linear by (simp add: tracking_start_fields PID_init_def reset_def)
  ultimately show "\<exists>s msg1 a1 l1 msg2 a2 l2 cmd1 cmd2.
        \<not> need_waypoint s
        \<and> \<not> need_waypoint (run s [Odom msg1 a1 l1])
        \<and> published (run s [Odom msg1 a1 l1]) = published s @ [cmd1]
        \<and> published (run s [Odom msg1 a1 l1, Odom msg2 a2 l2]) = published s @ [cmd1, cmd2]
        \<and> 0 \<le> delta (pid_linear s)
        \<and> delta (pid_linear (run s [Odom msg1 a1 l1])) = delta (pid_linear s)
        \<and> \<bar>linear_x cmd2 - linear_x cmd1\<bar> > delta (pid_linear s)"
    by blast
qed


end
